theory Spec2Isabelle
  imports Main "HOL-Library.Multiset"
begin

section \<open>Message model and wire form\<close>

text \<open>
  The message kinds are the string constants of the source. A point in time is the
  number of nanoseconds since Go's zero time (January 1, year 1, 00:00:00 UTC), so the
  zero value of \<open>time.Time\<close> is \<open>0\<close>.
\<close>

definition CHAT :: string where "CHAT = ''CHAT''"
definition PING :: string where "PING = ''PING''"
definition PONG :: string where "PONG = ''PONG''"
definition SYSTEM :: string where "SYSTEM = ''SYSTEM''"
definition NAME_CHANGE :: string where "NAME_CHANGE = ''NAME_CHANGE''"
definition requestOrigin :: string where "requestOrigin = ''http://localhost''"

type_synonym gotime = int

record Message =
  Author :: string
  Body :: string
  ID :: string
  Type :: string
  Visible :: bool
  Timestamp :: gotime

text \<open>The zero value of the struct, what \<open>Message{}\<close> and \<open>var message Message\<close> give.\<close>

definition Message_zero :: Message where
  "Message_zero =
     \<lparr>Author = [], Body = [], ID = [], Type = [], Visible = False, Timestamp = 0\<rparr>"

text \<open>
  The wire form is a JSON object, kept here as the ordered list of its members. A member
  value is a Go value of one of the three kinds the struct has: a string, a bool, or the
  struct \<open>time.Time\<close> (which marshals itself to an RFC 3339 string; the text of that
  string is not modelled).
\<close>

datatype jvalue = JString string | JBool bool | JTime gotime

text \<open>
  \<open>encoding/json\<close> skips a field tagged \<open>omitempty\<close> when its value is empty:
  false, 0, a nil pointer or interface, or an empty array, slice, map or string. A value of
  struct kind is never empty.
\<close>

fun isEmptyValue :: "jvalue \<Rightarrow> bool" where
  "isEmptyValue (JString s) = (s = [])"
| "isEmptyValue (JBool b) = (\<not> b)"
| "isEmptyValue (JTime t) = False"

text \<open>The fields of the struct in declaration order: JSON name, \<open>omitempty\<close>, value.\<close>

definition Message_fields :: "Message \<Rightarrow> (string \<times> bool \<times> jvalue) list" where
  "Message_fields m =
     [(''author'', True, JString (Author m)),
      (''body'', True, JString (Body m)),
      (''id'', True, JString (ID m)),
      (''type'', False, JString (Type m)),
      (''visible'', True, JBool (Visible m)),
      (''timestamp'', True, JTime (Timestamp m))]"

definition Message_encode :: "Message \<Rightarrow> (string \<times> jvalue) list" where
  "Message_encode m =
     map (\<lambda>(name, omitEmpty, v). (name, v))
       (filter (\<lambda>(name, omitEmpty, v). \<not> (omitEmpty \<and> isEmptyValue v)) (Message_fields m))"

text \<open>
  Decoding starts from the zero value and stores every member the object has under a
  field's name; a member of the wrong kind is an error, other members are ignored.
\<close>

datatype goerror =
    Errorf string
  | ErrCloseConnectionTimeout
  | CloseError nat string
  | LibError string

fun decode_member :: "Message \<Rightarrow> string \<times> jvalue \<Rightarrow> goerror + Message" where
  "decode_member m (name, v) =
     (if name = ''author'' then
        (case v of JString s \<Rightarrow> Inr (m\<lparr>Author := s\<rparr>) | _ \<Rightarrow> Inl (LibError ''json: cannot unmarshal''))
      else if name = ''body'' then
        (case v of JString s \<Rightarrow> Inr (m\<lparr>Body := s\<rparr>) | _ \<Rightarrow> Inl (LibError ''json: cannot unmarshal''))
      else if name = ''id'' then
        (case v of JString s \<Rightarrow> Inr (m\<lparr>ID := s\<rparr>) | _ \<Rightarrow> Inl (LibError ''json: cannot unmarshal''))
      else if name = ''type'' then
        (case v of JString s \<Rightarrow> Inr (m\<lparr>Type := s\<rparr>) | _ \<Rightarrow> Inl (LibError ''json: cannot unmarshal''))
      else if name = ''visible'' then
        (case v of JBool b \<Rightarrow> Inr (m\<lparr>Visible := b\<rparr>) | _ \<Rightarrow> Inl (LibError ''json: cannot unmarshal''))
      else if name = ''timestamp'' then
        (case v of JTime t \<Rightarrow> Inr (m\<lparr>Timestamp := t\<rparr>) | _ \<Rightarrow> Inl (LibError ''json: cannot unmarshal''))
      else Inr m)"

fun decode_members :: "Message \<Rightarrow> (string \<times> jvalue) list \<Rightarrow> goerror + Message" where
  "decode_members m [] = Inr m"
| "decode_members m (kv # kvs) =
     (case decode_member m kv of Inl e \<Rightarrow> Inl e | Inr m' \<Rightarrow> decode_members m' kvs)"

definition Message_decode :: "(string \<times> jvalue) list \<Rightarrow> goerror + Message" where
  "Message_decode w = decode_members Message_zero w"

section \<open>Logging\<close>

text \<open>
  A log call is recorded with its level, the fields attached with \<open>WithField\<close> and the
  pieces of its line: literal text, a \<open>Message\<close> printed through its \<open>String\<close> method,
  or an error printed through \<open>Error\<close>. Whether the logger's level lets the line through
  is decided outside the chat service and is not modelled.
\<close>

datatype loglevel = DebugLevel | WarnLevel | ErrorLevel

datatype logpart = Lit string | MsgString Message | ErrString goerror

record LogEntry =
  lvl :: loglevel
  attrs :: "(string \<times> string) list"
  line :: "logpart list"

fun Error_text :: "goerror \<Rightarrow> string" where
  "Error_text (Errorf s) = s"
| "Error_text ErrCloseConnectionTimeout =
     ''ChatService.Close(): timeout exceeded while closing websocket connection''"
| "Error_text (CloseError code s) = s"
| "Error_text (LibError s) = s"

section \<open>Transport and process state\<close>

text \<open>
  The websocket connection, as far as the service uses it: the frames handed to its write
  calls so far (\<open>written\<close>, in call order, whether or not the write succeeded) and the
  outcomes of the writes still to come (\<open>write_results\<close>; when the list is used up a
  write succeeds).
\<close>

datatype frame = JSONFrame Message | CloseFrame nat string

record Conn =
  write_results :: "goerror option list"
  written :: "frame list"

definition CloseNormalClosure :: nat where "CloseNormalClosure = 1000"

definition next_write_result :: "Conn \<Rightarrow> goerror option" where
  "next_write_result c = (case write_results c of [] \<Rightarrow> None | r # rs \<Rightarrow> r)"

definition ws_write :: "frame \<Rightarrow> Conn \<Rightarrow> goerror option \<times> Conn" where
  "ws_write f c =
     (case write_results c of
        [] \<Rightarrow> (None, c\<lparr>written := written c @ [f]\<rparr>)
      | r # rs \<Rightarrow> (r, c\<lparr>write_results := rs, written := written c @ [f]\<rparr>))"

text \<open>What \<open>ReadJSON\<close> returns: a decoded message, or an error together with whatever
  the message variable holds at that point.\<close>

datatype read_result = ReadOk Message | ReadErr goerror Message

record ServerStatus =
  Online :: bool
  ViewerCount :: int
  OverallMaxViewerCount :: int
  SessionMaxViewerCount :: int
  LastConnectTime :: gotime
  LastDisconnectTime :: gotime
  VersionNumber :: string

text \<open>
  The state of the process outside a chat service: the log, the calls made to the websocket
  dialer, the package variable \<open>serverStatus\<close> (\<open>None\<close> is the nil pointer) and the
  HTTP requests made so far.
\<close>

record Proc =
  logs :: "LogEntry list"
  dial_calls :: "(string \<times> (string \<times> string list) list) list"
  serverStatus :: "ServerStatus option"
  requests :: "string list"

definition log_entry :: "loglevel \<Rightarrow> (string \<times> string) list \<Rightarrow> logpart list \<Rightarrow> Proc \<Rightarrow> Proc" where
  "log_entry l fs ps p = p\<lparr>logs := logs p @ [\<lparr>lvl = l, attrs = fs, line = ps\<rparr>]\<rparr>"

section \<open>Connection manager\<close>

record Config =
  Scheme :: string
  Host :: string
  Path :: string
  CommandExecutorFunc :: "(Message \<Rightarrow> Message option) option"

text \<open>
  The library and the network the constructor calls: \<open>url.Parse\<close> (its error, if any),
  \<open>URL.String\<close> on scheme, host and path, and the dialer's answer for a URL and a header.
\<close>

record Env =
  url_Parse :: "string \<Rightarrow> goerror option"
  url_String :: "string \<Rightarrow> string \<Rightarrow> string \<Rightarrow> string"
  Dial :: "string \<Rightarrow> (string \<times> string list) list \<Rightarrow> goerror + Conn"

definition validate :: "Env \<Rightarrow> Config \<Rightarrow> goerror option" where
  "validate env c =
     (if Scheme c = [] then Some (Errorf ''missing websocket scheme'')
      else if Host c = [] then Some (Errorf ''missing websocket host'')
      else if CommandExecutorFunc c = None then Some (Errorf ''missing command executor function'')
      else (case url_Parse env (Scheme c @ ''://'' @ Host c @ Path c) of
              Some err \<Rightarrow> Some (Errorf (''invalid websocket url: '' @ Error_text err))
            | None \<Rightarrow> None))"

text \<open>
  The two unbuffered channels \<open>pingCh\<close> and \<open>chatCh\<close> hold nothing; what matters is the
  sequence of values handed over them. The read loop is their only sender and blocks on
  each send until the write loop has received it, so the write loop sees the values in the
  order of \<open>handoff\<close>. \<open>doneCh\<close> is true once the channel is closed. \<open>spawned\<close> lists
  the arguments of the goroutines the write loop has started, \<open>calls\<close> the invocations
  of \<open>jobFunc\<close>, and \<open>writer_exited\<close> says that \<open>listenWrite\<close> has returned.
  In \<open>NewChatService\<close> the function pointer is an option here, so the constructor has
  a branch for the nil pointer after the dial; \<open>validate\<close> has excluded it by then.
\<close>

datatype item = PingItem Message | ChatItem Message

record ChatService =
  ws :: Conn
  handoff :: "item list"
  jobFunc :: "Message \<Rightarrow> Message option"
  doneCh :: bool
  spawned :: "Message list"
  calls :: "Message list"
  writer_exited :: bool

definition NewChatService :: "Env \<Rightarrow> Config \<Rightarrow> Proc \<Rightarrow> (goerror + ChatService) \<times> Proc" where
  "NewChatService env config p =
     (case validate env config of
        Some err \<Rightarrow> (Inl err, p)
      | None \<Rightarrow>
          (let u = url_String env (Scheme config) (Host config) (Path config);
               p1 = log_entry DebugLevel [] [Lit (''connecting to '' @ u)] p;
               hdr = [(''Origin'', [requestOrigin])];
               p2 = p1\<lparr>dial_calls := dial_calls p1 @ [(u, hdr)]\<rparr>
           in case Dial env u hdr of
                Inl err \<Rightarrow> (Inl err, p2)
              | Inr c \<Rightarrow>
                  (case CommandExecutorFunc config of
                     None \<Rightarrow> (Inl (Errorf ''missing command executor function''), p2)
                   | Some f \<Rightarrow>
                       (Inr \<lparr>ws = c, handoff = [], jobFunc = f, doneCh = False,
                             spawned = [], calls = [], writer_exited = False\<rparr>, p2))))"

definition send :: "Message \<Rightarrow> ChatService \<Rightarrow> goerror option \<times> ChatService" where
  "send message c = (case ws_write (JSONFrame message) (ws c) of (r, k) \<Rightarrow> (r, c\<lparr>ws := k\<rparr>))"

section \<open>Shutdown\<close>

text \<open>
  The \<open>select\<close> of \<open>Close\<close> waits on \<open>doneCh\<close> and on \<open>ctx.Done()\<close>. Instants are
  natural numbers: \<open>entered\<close> is when the \<open>select\<close> is reached, \<open>done_at\<close> when the
  read loop closes \<open>doneCh\<close>, \<open>ctx_at\<close> when the context is done (\<open>None\<close>: never).
  As in Go, a \<open>select\<close> with several cases that can proceed takes one of them by a choice
  of the runtime (\<open>pick_done\<close> here), and otherwise blocks until the first case can proceed.
  The result \<open>None\<close> of \<open>select_done_ctx\<close> is a \<open>select\<close> that blocks forever.
\<close>

record select_env =
  entered :: nat
  done_at :: "nat option"
  ctx_at :: "nat option"
  pick_done :: bool

datatype select_case = RecvDone | RecvCtx

definition can_proceed :: "nat \<Rightarrow> nat option \<Rightarrow> bool" where
  "can_proceed t a = (case a of None \<Rightarrow> False | Some i \<Rightarrow> i \<le> t)"

definition runtime_choice :: "select_env \<Rightarrow> select_case" where
  "runtime_choice e = (if pick_done e then RecvDone else RecvCtx)"

definition select_done_ctx :: "select_env \<Rightarrow> select_case option" where
  "select_done_ctx e =
     (if can_proceed (entered e) (done_at e) \<and> can_proceed (entered e) (ctx_at e)
        then Some (runtime_choice e)
      else if can_proceed (entered e) (done_at e) then Some RecvDone
      else if can_proceed (entered e) (ctx_at e) then Some RecvCtx
      else (case (done_at e, ctx_at e) of
              (None, None) \<Rightarrow> None
            | (Some a, None) \<Rightarrow> Some RecvDone
            | (None, Some b) \<Rightarrow> Some RecvCtx
            | (Some a, Some b) \<Rightarrow>
                (if a < b then Some RecvDone
                 else if b < a then Some RecvCtx
                 else Some (runtime_choice e))))"

text \<open>
  \<open>Close\<close> returns Go's \<open>error\<close> (\<open>None\<close> is nil); the outer option is \<open>None\<close> when the
  call never returns.
\<close>

definition Close :: "select_env \<Rightarrow> Conn \<Rightarrow> goerror option option \<times> Conn" where
  "Close e c =
     (case ws_write (CloseFrame CloseNormalClosure []) c of
        (Some err, k) \<Rightarrow> (Some (Some (Errorf (''ChatService.Close(): '' @ Error_text err))), k)
      | (None, k) \<Rightarrow>
          (case select_done_ctx e of
             None \<Rightarrow> (None, k)
           | Some RecvDone \<Rightarrow> (Some None, k)
           | Some RecvCtx \<Rightarrow> (Some (Some ErrCloseConnectionTimeout), k)))"

text \<open>The completion signal fires strictly before the deadline elapses, and the converse.\<close>

definition done_before_deadline :: "select_env \<Rightarrow> bool" where
  "done_before_deadline e =
     (case (done_at e, ctx_at e) of
        (Some a, Some b) \<Rightarrow> a < b
      | (Some a, None) \<Rightarrow> True
      | (None, _) \<Rightarrow> False)"

definition deadline_before_done :: "select_env \<Rightarrow> bool" where
  "deadline_before_done e =
     (case (done_at e, ctx_at e) of
        (Some a, Some b) \<Rightarrow> b < a
      | (None, Some b) \<Rightarrow> True
      | (_, None) \<Rightarrow> False)"

section \<open>Read loop\<close>

text \<open>The body of one iteration after a successful read: the debug line, then the switch.\<close>

definition dispatch :: "Message \<Rightarrow> ChatService \<Rightarrow> Proc \<Rightarrow> ChatService \<times> Proc" where
  "dispatch message c p =
     (if Type message = PING then (c\<lparr>handoff := handoff c @ [PingItem message]\<rparr>, p)
      else if Type message = CHAT then (c\<lparr>handoff := handoff c @ [ChatItem message]\<rparr>, p)
      else if Type message = SYSTEM then (c, p)
      else if Type message = NAME_CHANGE then (c, p)
      else (c, log_entry WarnLevel []
                 [Lit ''unknow message type received: '', MsgString message] p))"

definition listenRead_body :: "Message \<Rightarrow> ChatService \<Rightarrow> Proc \<Rightarrow> ChatService \<times> Proc" where
  "listenRead_body message c p =
     dispatch message c
       (log_entry DebugLevel [] [Lit (''Received '' @ Type message @ '' request'')] p)"

definition read_failed :: "goerror \<Rightarrow> Message \<Rightarrow> ChatService \<Rightarrow> Proc \<Rightarrow> ChatService \<times> Proc" where
  "read_failed err message c p =
     (let unexpected = (case err of CloseError code s \<Rightarrow> code \<noteq> CloseNormalClosure | _ \<Rightarrow> True);
          p1 = (if unexpected
                then log_entry ErrorLevel [(''body'', Body message), (''type'', Type message)]
                       [ErrString err] p
                else p)
      in (c\<lparr>doneCh := True\<rparr>, p1))"

text \<open>
  The loop over what the transport delivers. When the list is used up the loop is blocked
  in \<open>ReadJSON\<close>: it has not returned and \<open>doneCh\<close> stays open.
\<close>

fun listenRead :: "read_result list \<Rightarrow> ChatService \<Rightarrow> Proc \<Rightarrow> ChatService \<times> Proc" where
  "listenRead [] c p = (c, p)"
| "listenRead (ReadErr err message # rest) c p = read_failed err message c p"
| "listenRead (ReadOk message # rest) c p =
     (case listenRead_body message c p of (c1, p1) \<Rightarrow> listenRead rest c1 p1)"

section \<open>Write loop\<close>

text \<open>What the \<open>select\<close> of the write loop receives, in order.\<close>

datatype wevent = DoneEvent | PingEvent Message | ChatEvent Message

fun item_event :: "item \<Rightarrow> wevent" where
  "item_event (PingItem m) = PingEvent m"
| "item_event (ChatItem m) = ChatEvent m"

definition events :: "ChatService \<Rightarrow> wevent list" where
  "events c = map item_event (handoff c) @ (if doneCh c then [DoneEvent] else [])"

definition send_failed :: "Message \<Rightarrow> goerror \<Rightarrow> Proc \<Rightarrow> Proc" where
  "send_failed m err p =
     log_entry ErrorLevel [(''body'', Body m), (''type'', Type m)] [ErrString err] p"


text \<open>
  The loop over the events. When the list is used up the loop is blocked in its
  \<open>select\<close>. The goroutines it starts run on their own (\<open>chat_goroutine\<close>); the loop
  only records that it started them.
\<close>

fun listenWrite :: "wevent list \<Rightarrow> ChatService \<Rightarrow> Proc \<Rightarrow> ChatService \<times> Proc" where
  "listenWrite [] c p = (c, p)"
| "listenWrite (DoneEvent # es) c p = (c\<lparr>writer_exited := True\<rparr>, p)"
| "listenWrite (PingEvent received # es) c p =
     (let m = Message_zero\<lparr>Type := PONG\<rparr> in
      case send m c of
        (Some err, c1) \<Rightarrow> listenWrite es c1 (send_failed m err p)
      | (None, c1) \<Rightarrow> listenWrite es c1 p)"
| "listenWrite (ChatEvent input # es) c p =
     listenWrite es (c\<lparr>spawned := spawned c @ [input]\<rparr>) p"

text \<open>
  \<open>Listen\<close> starts both loops. Since every value the read loop hands over is received by
  the write loop before the read loop goes on, the write loop's run is its run over the
  events the read loop produces.
\<close>

definition Listen :: "read_result list \<Rightarrow> ChatService \<Rightarrow> Proc \<Rightarrow> ChatService \<times> Proc" where
  "Listen rs c p = (case listenRead rs c p of (c1, p1) \<Rightarrow> listenWrite (events c1) c1 p1)"

text \<open>The messages decoded before the first read error.\<close>

fun decoded :: "read_result list \<Rightarrow> Message list" where
  "decoded [] = []"
| "decoded (ReadErr err message # rest) = []"
| "decoded (ReadOk message # rest) = message # decoded rest"




section \<open>Server status and uptime\<close>

definition ServerURL :: string where "ServerURL = ''https://stream.skynewz.dev''"

text \<open>The answer to one HTTP request: the request fails, the body does not decode, or it
  decodes to a status.\<close>

datatype http_result = GetFailed goerror | DecodeFailed goerror | Decoded ServerStatus

text \<open>\<open>http n\<close> is the answer to the request made when \<open>n\<close> requests were made before.\<close>

definition getServerStatus :: "(nat \<Rightarrow> http_result) \<Rightarrow> Proc \<Rightarrow> (goerror + ServerStatus) \<times> Proc" where
  "getServerStatus http p =
     (case serverStatus p of
        Some ss \<Rightarrow> (Inr ss, p)
      | None \<Rightarrow>
          (let p1 = p\<lparr>requests := requests p @ [ServerURL @ ''/api/status'']\<rparr> in
           case http (length (requests p)) of
             GetFailed err \<Rightarrow> (Inl err, p1)
           | DecodeFailed err \<Rightarrow> (Inl err, p1)
           | Decoded ss \<Rightarrow> (Inr ss, p1\<lparr>serverStatus := Some ss\<rparr>)))"





text \<open>
  A call of \<open>getServerStatus\<close> in its two steps, between which other goroutines run:
  the test of the package variable, which ends the call when the variable is set and
  otherwise sends the request; and the arrival of the answer, which is decoded and, when
  it decodes, stored. \<open>run_lookups\<close> runs such steps of several calls in a given order and
  collects what the calls return.
\<close>

definition getServerStatus_begin :: "Proc \<Rightarrow> ServerStatus option \<times> Proc" where
  "getServerStatus_begin p =
     (case serverStatus p of
        Some ss \<Rightarrow> (Some ss, p)
      | None \<Rightarrow> (None, p\<lparr>requests := requests p @ [ServerURL @ ''/api/status'']\<rparr>))"

definition getServerStatus_end :: "http_result \<Rightarrow> Proc \<Rightarrow> (goerror + ServerStatus) \<times> Proc" where
  "getServerStatus_end r p =
     (case r of
        GetFailed err \<Rightarrow> (Inl err, p)
      | DecodeFailed err \<Rightarrow> (Inl err, p)
      | Decoded ss \<Rightarrow> (Inr ss, p\<lparr>serverStatus := Some ss\<rparr>))"



section \<open>Command file\<close>

record Command =
  Trigger :: string
  Template :: string

text \<open>
  A call either returns or ends the process: \<open>log.Fatalf\<close> prints its line and calls
  \<open>os.Exit(1)\<close>. Reading the file and parsing YAML are the library's and are parameters.
\<close>

datatype 'a outcome = Return 'a | Exit nat string

definition ReadCommandsFromFile ::
  "(string \<Rightarrow> goerror + string) \<Rightarrow> (string \<Rightarrow> goerror + Command list) \<Rightarrow> string
     \<Rightarrow> (goerror + Command list) outcome" where
  "ReadCommandsFromFile ReadFile Unmarshal file =
     (case ReadFile file of
        Inl err \<Rightarrow> Return (Inl err)
      | Inr data \<Rightarrow>
          (case Unmarshal data of
             Inl err \<Rightarrow> Exit 1 (''error: '' @ Error_text err)
           | Inr f \<Rightarrow> Return (Inr f)))"


section \<open>Auxiliary notions for the statements\<close>

text \<open>What the switch of the read loop hands over for a message.\<close>

definition route :: "Message \<Rightarrow> item list" where
  "route m = (if Type m = PING then [PingItem m] else if Type m = CHAT then [ChatItem m] else [])"

definition pong :: Message where "pong = Message_zero\<lparr>Type := PONG\<rparr>"

fun is_ping :: "item \<Rightarrow> bool" where
  "is_ping (PingItem m) = True"
| "is_ping (ChatItem m) = False"

fun chat_of :: "item \<Rightarrow> Message list" where
  "chat_of (PingItem m) = []"
| "chat_of (ChatItem m) = [m]"

text \<open>
  Two situations of the \<open>select\<close> in \<open>Close\<close>: both events lie in the past when it is
  entered, and both events fall on the same instant.
\<close>

definition both_passed :: "select_env \<Rightarrow> bool" where
  "both_passed e = (can_proceed (entered e) (done_at e) \<and> can_proceed (entered e) (ctx_at e))"

definition simultaneous :: "select_env \<Rightarrow> bool" where
  "simultaneous e = (case (done_at e, ctx_at e) of (Some a, Some b) \<Rightarrow> a = b | _ \<Rightarrow> False)"

section \<open>Example values\<close>

definition proc0 :: Proc where
  "proc0 = \<lparr>logs = [], dial_calls = [], serverStatus = None, requests = []\<rparr>"

definition conn0 :: Conn where
  "conn0 = \<lparr>write_results = [], written = []\<rparr>"

definition failing_conn :: Conn where
  "failing_conn = \<lparr>write_results = [Some (LibError ''write: broken pipe'')], written = []\<rparr>"

definition service0 :: ChatService where
  "service0 = \<lparr>ws = conn0, handoff = [], jobFunc = (\<lambda>m. None), doneCh = False,
                spawned = [], calls = [], writer_exited = False\<rparr>"

definition help_reply :: Message where
  "help_reply = \<lparr>Author = ''Bot'', Body = ''@bob try !uptime'', ID = [], Type = ''CHAT'',
                  Visible = False, Timestamp = 0\<rparr>"

definition help_job :: "Message \<Rightarrow> Message option" where
  "help_job m = (if Body m = ''<p>!help</p>'' then Some help_reply else None)"

definition chat_help :: Message where
  "chat_help = \<lparr>Author = ''bob'', Body = ''<p>!help</p>'', ID = ''8'', Type = ''CHAT'',
                 Visible = True, Timestamp = 6\<rparr>"


definition ping_full :: Message where
  "ping_full = \<lparr>Author = ''srv'', Body = ''are you there'', ID = ''7'', Type = ''PING'',
                 Visible = True, Timestamp = 5\<rparr>"

definition env0 :: Env where
  "env0 = \<lparr>url_Parse = (\<lambda>s. None), url_String = (\<lambda>s h p. s @ ''://'' @ h @ p),
           Dial = (\<lambda>u h. Inr conn0)\<rparr>"




definition ReadFile0 :: "string \<Rightarrow> goerror + string" where
  "ReadFile0 f = (if f = ''commands.yml'' then Inr ''commands: [''
                  else Inl (LibError ''open: no such file or directory''))"

definition Unmarshal0 :: "string \<Rightarrow> goerror + Command list" where
  "Unmarshal0 d = Inl (LibError ''yaml: did not find expected node content'')"

section \<open>Basic facts\<close>

lemma kinds_distinct:
  "PING \<noteq> CHAT" "PING \<noteq> SYSTEM" "PING \<noteq> NAME_CHANGE" "PING \<noteq> PONG"
  "CHAT \<noteq> SYSTEM" "CHAT \<noteq> NAME_CHANGE" "CHAT \<noteq> PONG"
  "SYSTEM \<noteq> NAME_CHANGE" "SYSTEM \<noteq> PONG" "NAME_CHANGE \<noteq> PONG"
  by (simp_all add: PING_def CHAT_def SYSTEM_def NAME_CHANGE_def PONG_def)

lemma ws_write_fst: "fst (ws_write f c) = next_write_result c"
  by (simp add: ws_write_def next_write_result_def split: list.splits)

lemma ws_write_written: "written (snd (ws_write f c)) = written c @ [f]"
  by (simp add: ws_write_def split: list.splits)

lemma send_fst: "fst (send m c) = next_write_result (ws c)"
  by (simp add: send_def ws_write_def next_write_result_def split: list.splits)

lemma send_snd:
  "snd (send m c) =
     c\<lparr>ws := (ws c)\<lparr>write_results := tl (write_results (ws c)),
                    written := written (ws c) @ [JSONFrame m]\<rparr>\<rparr>"
  by (simp add: send_def ws_write_def split: list.splits)

section \<open>The wire form\<close>

lemma Message_decode_encode: "Message_decode (Message_encode m) = Inr m"
  by (cases m) (simp add: Message_decode_def Message_encode_def Message_fields_def Message_zero_def)

text \<open>
  C1 (second half, at the message the write loop itself builds, \<open>Message{Type: PONG}\<close>):
  with every optional field at its zero value the wire form still carries the member
  \<open>timestamp\<close> next to \<open>type\<close>, because \<open>omitempty\<close> has no effect on a field of
  struct kind. The round trip of the first half holds in this model
  (\<open>Message_decode_encode\<close>).
\<close>

theorem Message_encode_zero_keeps_timestamp:
  "Message_encode (Message_zero\<lparr>Type := PONG\<rparr>) =
     [(''type'', JString ''PONG''), (''timestamp'', JTime 0)]"
  by (simp add: Message_encode_def Message_fields_def Message_zero_def PONG_def)

section \<open>Shutdown\<close>

lemma Close_written: "written (snd (Close e c)) = written c @ [CloseFrame CloseNormalClosure []]"
proof -
  obtain r k where w: "ws_write (CloseFrame CloseNormalClosure []) c = (r, k)"
    by (cases "ws_write (CloseFrame CloseNormalClosure []) c")
  have "written k = written c @ [CloseFrame CloseNormalClosure []]"
    using ws_write_written [of "CloseFrame CloseNormalClosure []" c] w by simp
  then show ?thesis
    by (simp add: Close_def w split: option.splits select_case.splits)
qed

lemma Close_write_failed:
  assumes "next_write_result c = Some err"
  shows "fst (Close e c) = Some (Some (Errorf (''ChatService.Close(): '' @ Error_text err)))"
proof -
  obtain r k where w: "ws_write (CloseFrame CloseNormalClosure []) c = (r, k)"
    by (cases "ws_write (CloseFrame CloseNormalClosure []) c")
  have "r = Some err" using ws_write_fst [of "CloseFrame CloseNormalClosure []" c] w assms by simp
  then show ?thesis by (simp add: Close_def w)
qed

lemma Close_write_ok:
  assumes "next_write_result c = None"
  shows "fst (Close e c) =
    (case select_done_ctx e of None \<Rightarrow> None | Some RecvDone \<Rightarrow> Some None
       | Some RecvCtx \<Rightarrow> Some (Some ErrCloseConnectionTimeout))"
proof -
  obtain r k where w: "ws_write (CloseFrame CloseNormalClosure []) c = (r, k)"
    by (cases "ws_write (CloseFrame CloseNormalClosure []) c")
  have "r = None" using ws_write_fst [of "CloseFrame CloseNormalClosure []" c] w assms by simp
  then show ?thesis by (simp add: Close_def w split: option.splits select_case.splits)
qed

lemma select_ordered:
  assumes "\<not> both_passed e" "\<not> simultaneous e"
  shows "(select_done_ctx e = Some RecvDone) = done_before_deadline e"
    and "(select_done_ctx e = Some RecvCtx) = deadline_before_done e"
  using assms
  by (auto simp: select_done_ctx_def both_passed_def simultaneous_def can_proceed_def
      done_before_deadline_def deadline_before_done_def runtime_choice_def
      split: option.splits if_splits)

text \<open>
  C2, as amended. \<open>Close\<close> first hands the normal-closure frame to the transport. If that
  write fails it returns the wrapped write error, whatever the timing of the two events
  (it does not wait). If the write succeeds, and the completion signal and the deadline
  have not both already occurred when the wait begins, and they do not fall on the same
  instant, then it returns nil exactly when the completion signal fires before the
  deadline elapses and \<open>ErrCloseConnectionTimeout\<close> exactly when the deadline elapses
  first.
\<close>

theorem Close_result:
  "written (snd (Close e c)) = written c @ [CloseFrame CloseNormalClosure []] \<and>
   (next_write_result c = Some err \<longrightarrow>
      fst (Close e c) = Some (Some (Errorf (''ChatService.Close(): '' @ Error_text err)))) \<and>
   (next_write_result c = None \<and> \<not> both_passed e \<and> \<not> simultaneous e \<longrightarrow>
      (fst (Close e c) = Some None) = done_before_deadline e \<and>
      (fst (Close e c) = Some (Some ErrCloseConnectionTimeout)) = deadline_before_done e)"
proof (intro conjI impI)
  show "written (snd (Close e c)) = written c @ [CloseFrame CloseNormalClosure []]"
    by (rule Close_written)
next
  assume "next_write_result c = Some err"
  then show "fst (Close e c) = Some (Some (Errorf (''ChatService.Close(): '' @ Error_text err)))"
    by (rule Close_write_failed)
next
  assume a: "next_write_result c = None \<and> \<not> both_passed e \<and> \<not> simultaneous e"
  then have ok: "next_write_result c = None" and nb: "\<not> both_passed e" and ns: "\<not> simultaneous e"
    by simp_all
  show "(fst (Close e c) = Some None) = done_before_deadline e"
    using select_ordered(1) [OF nb ns] Close_write_ok [OF ok, of e]
    by (auto split: option.splits select_case.splits)
next
  assume a: "next_write_result c = None \<and> \<not> both_passed e \<and> \<not> simultaneous e"
  then have ok: "next_write_result c = None" and nb: "\<not> both_passed e" and ns: "\<not> simultaneous e"
    by simp_all
  show "(fst (Close e c) = Some (Some ErrCloseConnectionTimeout)) = deadline_before_done e"
    using select_ordered(2) [OF nb ns] Close_write_ok [OF ok, of e]
    by (auto split: option.splits select_case.splits)
qed

text \<open>
  The three cases at concrete inputs: a write that fails; closure at instant 10 with the
  deadline at 50; closure withheld with the deadline at 20.
\<close>

theorem Close_result_witness:
  "next_write_result failing_conn = Some (LibError ''write: broken pipe'') \<and>
   fst (Close \<lparr>entered = 0, done_at = Some 10, ctx_at = Some 50, pick_done = False\<rparr> failing_conn) =
     Some (Some (Errorf ''ChatService.Close(): write: broken pipe'')) \<and>
   next_write_result conn0 = None \<and>
   \<not> both_passed \<lparr>entered = 0, done_at = Some 10, ctx_at = Some 50, pick_done = False\<rparr> \<and>
   \<not> simultaneous \<lparr>entered = 0, done_at = Some 10, ctx_at = Some 50, pick_done = False\<rparr> \<and>
   done_before_deadline \<lparr>entered = 0, done_at = Some 10, ctx_at = Some 50, pick_done = False\<rparr> \<and>
   fst (Close \<lparr>entered = 0, done_at = Some 10, ctx_at = Some 50, pick_done = False\<rparr> conn0) = Some None \<and>
   \<not> both_passed \<lparr>entered = 0, done_at = None, ctx_at = Some 20, pick_done = True\<rparr> \<and>
   \<not> simultaneous \<lparr>entered = 0, done_at = None, ctx_at = Some 20, pick_done = True\<rparr> \<and>
   deadline_before_done \<lparr>entered = 0, done_at = None, ctx_at = Some 20, pick_done = True\<rparr> \<and>
   fst (Close \<lparr>entered = 0, done_at = None, ctx_at = Some 20, pick_done = True\<rparr> conn0) =
     Some (Some ErrCloseConnectionTimeout)"
proof -
  have a: "next_write_result failing_conn = Some (LibError ''write: broken pipe'')"
    by (simp add: next_write_result_def failing_conn_def)
  have b: "next_write_result conn0 = None" by (simp add: next_write_result_def conn0_def)
  have c: "\<not> both_passed \<lparr>entered = 0, done_at = Some 10, ctx_at = Some 50, pick_done = False\<rparr>"
     "\<not> simultaneous \<lparr>entered = 0, done_at = Some 10, ctx_at = Some 50, pick_done = False\<rparr>"
     "done_before_deadline \<lparr>entered = 0, done_at = Some 10, ctx_at = Some 50, pick_done = False\<rparr>"
    by (simp_all add: both_passed_def simultaneous_def done_before_deadline_def can_proceed_def)
  have d: "\<not> both_passed \<lparr>entered = 0, done_at = None, ctx_at = Some 20, pick_done = True\<rparr>"
     "\<not> simultaneous \<lparr>entered = 0, done_at = None, ctx_at = Some 20, pick_done = True\<rparr>"
     "deadline_before_done \<lparr>entered = 0, done_at = None, ctx_at = Some 20, pick_done = True\<rparr>"
    by (simp_all add: both_passed_def simultaneous_def deadline_before_done_def can_proceed_def)
  show ?thesis
    using a b c d
      Close_result [of "\<lparr>entered = 0, done_at = Some 10, ctx_at = Some 50, pick_done = False\<rparr>"
        failing_conn "LibError ''write: broken pipe''"]
      Close_result [of "\<lparr>entered = 0, done_at = Some 10, ctx_at = Some 50, pick_done = False\<rparr>"
        conn0 "LibError []"]
      Close_result [of "\<lparr>entered = 0, done_at = None, ctx_at = Some 20, pick_done = True\<rparr>"
        conn0 "LibError []"]
    by simp
qed

text \<open>
  The claim as stated fails when both events lie in the past at the moment the
  \<open>select\<close> is reached: the completion signal fired at instant 1, the deadline elapsed at
  instant 2, the \<open>select\<close> is entered at instant 3 after a successful write, and the
  runtime takes the \<open>ctx.Done()\<close> case.
\<close>

theorem Close_both_passed_counterexample:
  "done_before_deadline \<lparr>entered = 3, done_at = Some 1, ctx_at = Some 2, pick_done = False\<rparr> \<and>
   next_write_result conn0 = None \<and>
   fst (Close \<lparr>entered = 3, done_at = Some 1, ctx_at = Some 2, pick_done = False\<rparr> conn0) =
     Some (Some ErrCloseConnectionTimeout)"
  by (simp add: done_before_deadline_def next_write_result_def conn0_def Close_def ws_write_def
      select_done_ctx_def can_proceed_def runtime_choice_def)

section \<open>The two loops\<close>

lemma listenRead_body_fst:
  "fst (listenRead_body m c p) = c\<lparr>handoff := handoff c @ route m\<rparr>"
  by (simp add: listenRead_body_def dispatch_def route_def)

lemma listenRead_handoff:
  "handoff (fst (listenRead rs c p)) = handoff c @ concat (map route (decoded rs))"
proof (induction rs c p rule: listenRead.induct)
  case (1 c p)
  show ?case by simp
next
  case (2 err message rest c p)
  show ?case by (simp add: read_failed_def Let_def)
next
  case (3 message rest c p)
  obtain c1 p1 where b: "listenRead_body message c p = (c1, p1)"
    by (cases "listenRead_body message c p")
  have c1: "c1 = c\<lparr>handoff := handoff c @ route message\<rparr>"
    using listenRead_body_fst [of message c p] b by simp
  show ?case using 3 [of c1 p1] b c1 by simp
qed

lemma listenRead_keeps:
  "ws (fst (listenRead rs c p)) = ws c \<and> spawned (fst (listenRead rs c p)) = spawned c
     \<and> calls (fst (listenRead rs c p)) = calls c"
proof (induction rs c p rule: listenRead.induct)
  case (1 c p)
  show ?case by simp
next
  case (2 err message rest c p)
  show ?case by (simp add: read_failed_def Let_def)
next
  case (3 message rest c p)
  obtain c1 p1 where b: "listenRead_body message c p = (c1, p1)"
    by (cases "listenRead_body message c p")
  have c1: "c1 = c\<lparr>handoff := handoff c @ route message\<rparr>"
    using listenRead_body_fst [of message c p] b by simp
  show ?case using 3 [of c1 p1] b c1 by simp
qed

lemma listenWrite_items:
  "fin = [] \<or> fin = [DoneEvent] \<Longrightarrow>
   written (ws (fst (listenWrite (map item_event its @ fin) c p))) =
     written (ws c) @ replicate (length (filter is_ping its)) (JSONFrame pong)
   \<and> spawned (fst (listenWrite (map item_event its @ fin) c p)) = spawned c @ concat (map chat_of its)
   \<and> calls (fst (listenWrite (map item_event its @ fin) c p)) = calls c"
proof (induction its arbitrary: c p)
  case Nil
  then show ?case by auto
next
  case (Cons i its)
  show ?case
  proof (cases i)
    case (PingItem m)
    obtain r c1 where s: "send pong c = (r, c1)" by (cases "send pong c")
    have c1: "c1 = c\<lparr>ws := (ws c)\<lparr>write_results := tl (write_results (ws c)),
                    written := written (ws c) @ [JSONFrame pong]\<rparr>\<rparr>"
      using send_snd [of pong c] s by simp
    show ?thesis
    proof (cases r)
      case None
      then show ?thesis using Cons.IH [OF Cons.prems, of c1 p] s c1 PingItem
        by (simp add: pong_def [symmetric] replicate_append_same)
    next
      case (Some err)
      then show ?thesis using Cons.IH [OF Cons.prems, of c1 "send_failed pong err p"] s c1 PingItem
        by (simp add: pong_def [symmetric] replicate_append_same)
    qed
  next
    case (ChatItem m)
    then show ?thesis using Cons.IH [OF Cons.prems, of "c\<lparr>spawned := spawned c @ [m]\<rparr>" p]
      by simp
  qed
qed

lemma count_pings:
  "length (filter is_ping (concat (map route ms))) = length (filter (\<lambda>m. Type m = PING) ms)"
  by (induction ms) (simp_all add: route_def)

lemma chats_routed:
  "concat (map chat_of (concat (map route ms))) = filter (\<lambda>m. Type m = CHAT) ms"
  by (induction ms) (simp_all add: route_def kinds_distinct)

lemma Listen_effect:
  assumes "handoff c = []"
  shows "written (ws (fst (Listen rs c p))) =
           written (ws c) @ replicate (length (filter (\<lambda>m. Type m = PING) (decoded rs))) (JSONFrame pong)"
    and "spawned (fst (Listen rs c p)) = spawned c @ filter (\<lambda>m. Type m = CHAT) (decoded rs)"
    and "calls (fst (Listen rs c p)) = calls c"
proof -
  obtain c1 p1 where r: "listenRead rs c p = (c1, p1)" by (cases "listenRead rs c p")
  have h: "handoff c1 = concat (map route (decoded rs))"
    using listenRead_handoff [of rs c p] r assms by simp
  have k: "ws c1 = ws c" "spawned c1 = spawned c" "calls c1 = calls c"
    using listenRead_keeps [of rs c p] r by simp_all
  have fin: "(if doneCh c1 then [DoneEvent] else []) = [] \<or>
             (if doneCh c1 then [DoneEvent] else []) = [DoneEvent]"
    by simp
  note w = listenWrite_items [OF fin, of "handoff c1" c1 p1]
  have L: "Listen rs c p =
      listenWrite (map item_event (handoff c1) @ (if doneCh c1 then [DoneEvent] else [])) c1 p1"
    by (simp add: Listen_def r events_def)
  show "written (ws (fst (Listen rs c p))) =
           written (ws c) @ replicate (length (filter (\<lambda>m. Type m = PING) (decoded rs))) (JSONFrame pong)"
    using w by (simp only: L h k count_pings)
  show "spawned (fst (Listen rs c p)) = spawned c @ filter (\<lambda>m. Type m = CHAT) (decoded rs)"
    using w by (simp only: L h k chats_routed)
  show "calls (fst (Listen rs c p)) = calls c"
    using w by (simp only: L h k)
qed


text \<open>
  C3. On a service whose channels have carried nothing yet, the frames the write loop hands
  to the transport while the two loops run are, in order, one \<open>PONG\<close> message per
  \<open>PING\<close> message decoded, and nothing else; that message has the type \<open>PONG\<close> and every
  other field at its zero value, whatever the received \<open>PING\<close> carried.
\<close>

theorem ping_answered_by_one_pong:
  "handoff c = [] \<Longrightarrow>
   written (ws (fst (Listen rs c p))) =
     written (ws c) @
     replicate (length (filter (\<lambda>m. Type m = PING) (decoded rs)))
       (JSONFrame \<lparr>Author = [], Body = [], ID = [], Type = ''PONG'', Visible = False, Timestamp = 0\<rparr>)"
  using Listen_effect(1) [of c rs p] by (simp add: pong_def Message_zero_def PONG_def)

theorem ping_answered_by_one_pong_witness:
  "handoff service0 = [] \<and>
   written (ws (fst (Listen
      [ReadOk ping_full, ReadOk chat_help, ReadOk (Message_zero\<lparr>Type := ''PING''\<rparr>),
       ReadErr (CloseError 1000 ''websocket: close 1000 (normal)'') Message_zero]
      service0 proc0))) =
     [JSONFrame \<lparr>Author = [], Body = [], ID = [], Type = ''PONG'', Visible = False, Timestamp = 0\<rparr>,
      JSONFrame \<lparr>Author = [], Body = [], ID = [], Type = ''PONG'', Visible = False, Timestamp = 0\<rparr>]"
proof -
  have h: "handoff service0 = []" by (simp add: service0_def)
  show ?thesis
    using h ping_answered_by_one_pong [OF h,
      of "[ReadOk ping_full, ReadOk chat_help, ReadOk (Message_zero\<lparr>Type := ''PING''\<rparr>),
           ReadErr (CloseError 1000 ''websocket: close 1000 (normal)'') Message_zero]" proc0]
    by (simp add: PING_def service0_def conn0_def ping_full_def chat_help_def)
qed

section \<open>Connection manager\<close>

lemma NewChatService_valid_dials_once:
  "validate env cfg = None \<Longrightarrow>
   dial_calls (snd (NewChatService env cfg p)) =
     dial_calls p @
     [(url_String env (Scheme cfg) (Host cfg) (Path cfg), [(''Origin'', [''http://localhost''])])]"
  by (auto simp: NewChatService_def validate_def Let_def log_entry_def requestOrigin_def
      split: option.splits sum.splits if_splits)

text \<open>
  C4. For a configuration with an empty scheme, an empty host, no command executor
  function, or a composed URL that \<open>url.Parse\<close> rejects, \<open>NewChatService\<close> returns the
  error of \<open>validate\<close>, whose text names the first field found missing or invalid, and
  leaves the process state as it was: in particular the dialer has not been called.
\<close>

theorem NewChatService_invalid_config:
  "Scheme cfg = [] \<or> Host cfg = [] \<or> CommandExecutorFunc cfg = None \<or>
   url_Parse env (Scheme cfg @ ''://'' @ Host cfg @ Path cfg) \<noteq> None \<Longrightarrow>
   \<exists>msg. NewChatService env cfg p = (Inl (Errorf msg), p) \<and>
     dial_calls (snd (NewChatService env cfg p)) = dial_calls p \<and>
     (Scheme cfg = [] \<longrightarrow> msg = ''missing websocket scheme'') \<and>
     (Scheme cfg \<noteq> [] \<and> Host cfg = [] \<longrightarrow> msg = ''missing websocket host'') \<and>
     (Scheme cfg \<noteq> [] \<and> Host cfg \<noteq> [] \<and> CommandExecutorFunc cfg = None \<longrightarrow>
        msg = ''missing command executor function'') \<and>
     (Scheme cfg \<noteq> [] \<and> Host cfg \<noteq> [] \<and> CommandExecutorFunc cfg \<noteq> None \<longrightarrow>
        (\<exists>err. url_Parse env (Scheme cfg @ ''://'' @ Host cfg @ Path cfg) = Some err \<and>
               msg = ''invalid websocket url: '' @ Error_text err))"
  by (auto simp: NewChatService_def validate_def split: option.splits)

text \<open>An empty host: the error names the host and no dial call is made.\<close>

theorem NewChatService_invalid_config_witness:
  "Host \<lparr>Scheme = ''wss'', Host = [], Path = ''/entry'', CommandExecutorFunc = Some help_job\<rparr> = [] \<and>
   NewChatService env0
     \<lparr>Scheme = ''wss'', Host = [], Path = ''/entry'', CommandExecutorFunc = Some help_job\<rparr> proc0 =
     (Inl (Errorf ''missing websocket host''), proc0) \<and>
   dial_calls (snd (NewChatService env0
     \<lparr>Scheme = ''wss'', Host = [], Path = ''/entry'', CommandExecutorFunc = Some help_job\<rparr> proc0)) = []"
proof -
  let ?cfg = "\<lparr>Scheme = ''wss'', Host = [], Path = ''/entry'', CommandExecutorFunc = Some help_job\<rparr>"
  have h: "Scheme ?cfg = [] \<or> Host ?cfg = [] \<or> CommandExecutorFunc ?cfg = None \<or>
     url_Parse env0 (Scheme ?cfg @ ''://'' @ Host ?cfg @ Path ?cfg) \<noteq> None"
    by simp
  from NewChatService_invalid_config [OF h, of proc0]
  obtain msg where m: "NewChatService env0 ?cfg proc0 = (Inl (Errorf msg), proc0)"
    and d: "dial_calls (snd (NewChatService env0 ?cfg proc0)) = dial_calls proc0"
    and t: "Scheme ?cfg \<noteq> [] \<and> Host ?cfg = [] \<longrightarrow> msg = ''missing websocket host''"
    by blast
  have "msg = ''missing websocket host''" using t by simp
  then show ?thesis using m d by (simp add: proc0_def)
qed

section \<open>Routing in the read loop\<close>

text \<open>
  C5, as amended. One iteration of the read loop on a message of type \<open>SYSTEM\<close> or
  \<open>NAME_CHANGE\<close> leaves the service as it was (nothing is handed to the write loop,
  nothing is written) and logs no warning and no error: its only log call is the debug line
  \<open>Received <type> request\<close> that the loop makes for every decoded message. On a message
  whose type is none of \<open>PING\<close>, \<open>CHAT\<close>, \<open>SYSTEM\<close>, \<open>NAME_CHANGE\<close> it leaves the
  service as it was and logs, after that debug line, exactly one warning.
\<close>

theorem listenRead_ignored_and_unknown:
  "(Type m = SYSTEM \<or> Type m = NAME_CHANGE \<longrightarrow>
      listenRead_body m c p =
        (c, p\<lparr>logs := logs p @
               [\<lparr>lvl = DebugLevel, attrs = [], line = [Lit (''Received '' @ Type m @ '' request'')]\<rparr>]\<rparr>)) \<and>
   (Type m \<noteq> PING \<and> Type m \<noteq> CHAT \<and> Type m \<noteq> SYSTEM \<and> Type m \<noteq> NAME_CHANGE \<longrightarrow>
      listenRead_body m c p =
        (c, p\<lparr>logs := logs p @
               [\<lparr>lvl = DebugLevel, attrs = [], line = [Lit (''Received '' @ Type m @ '' request'')]\<rparr>,
                \<lparr>lvl = WarnLevel, attrs = [],
                 line = [Lit ''unknow message type received: '', MsgString m]\<rparr>]\<rparr>))"
  by (auto simp: listenRead_body_def dispatch_def log_entry_def kinds_distinct
      kinds_distinct [symmetric])

theorem listenRead_ignored_and_unknown_witness:
  "listenRead_body (Message_zero\<lparr>Type := ''SYSTEM''\<rparr>) service0 proc0 =
     (service0, proc0\<lparr>logs := [\<lparr>lvl = DebugLevel, attrs = [], line = [Lit ''Received SYSTEM request'']\<rparr>]\<rparr>) \<and>
   listenRead_body (Message_zero\<lparr>Type := ''NAME_CHANGE''\<rparr>) service0 proc0 =
     (service0, proc0\<lparr>logs := [\<lparr>lvl = DebugLevel, attrs = [], line = [Lit ''Received NAME_CHANGE request'']\<rparr>]\<rparr>) \<and>
   listenRead_body (Message_zero\<lparr>Type := ''USER_JOINED''\<rparr>) service0 proc0 =
     (service0, proc0\<lparr>logs :=
        [\<lparr>lvl = DebugLevel, attrs = [], line = [Lit ''Received USER_JOINED request'']\<rparr>,
         \<lparr>lvl = WarnLevel, attrs = [],
          line = [Lit ''unknow message type received: '',
                  MsgString (Message_zero\<lparr>Type := ''USER_JOINED''\<rparr>)]\<rparr>]\<rparr>)"
  using listenRead_ignored_and_unknown [of "Message_zero\<lparr>Type := ''SYSTEM''\<rparr>" service0 proc0]
    listenRead_ignored_and_unknown [of "Message_zero\<lparr>Type := ''NAME_CHANGE''\<rparr>" service0 proc0]
    listenRead_ignored_and_unknown [of "Message_zero\<lparr>Type := ''USER_JOINED''\<rparr>" service0 proc0]
  by (simp add: SYSTEM_def NAME_CHANGE_def PING_def CHAT_def proc0_def)

text \<open>
  The claim as stated (no log of any kind for \<open>SYSTEM\<close>) fails: starting from an empty
  log, the iteration on a \<open>SYSTEM\<close> message leaves one log entry, at debug level.
\<close>

theorem listenRead_system_logs_counterexample:
  "Type (Message_zero\<lparr>Type := ''SYSTEM''\<rparr>) = SYSTEM \<and>
   logs proc0 = [] \<and>
   logs (snd (listenRead_body (Message_zero\<lparr>Type := ''SYSTEM''\<rparr>) service0 proc0)) =
     [\<lparr>lvl = DebugLevel, attrs = [], line = [Lit ''Received SYSTEM request'']\<rparr>]"
  by (simp add: listenRead_body_def dispatch_def log_entry_def proc0_def
      SYSTEM_def PING_def CHAT_def)

text \<open>
  C8. A received message of type \<open>PONG\<close> falls into the default branch of the switch: the
  service is left as it was (the message is handed to neither channel) and the warning
  \<open>unknow message type received\<close> is logged after the debug line, as for a type outside
  the enumerated kinds.
\<close>

theorem listenRead_pong_is_unknown:
  "Type m = PONG \<Longrightarrow>
   listenRead_body m c p =
     (c, p\<lparr>logs := logs p @
            [\<lparr>lvl = DebugLevel, attrs = [], line = [Lit ''Received PONG request'']\<rparr>,
             \<lparr>lvl = WarnLevel, attrs = [],
              line = [Lit ''unknow message type received: '', MsgString m]\<rparr>]\<rparr>)"
  by (simp add: listenRead_body_def dispatch_def log_entry_def kinds_distinct [symmetric])
    (simp add: PONG_def)

theorem listenRead_pong_is_unknown_witness:
  "Type (Message_zero\<lparr>Type := ''PONG''\<rparr>) = PONG \<and>
   listenRead_body (Message_zero\<lparr>Type := ''PONG''\<rparr>) service0 proc0 =
     (service0, proc0\<lparr>logs :=
        [\<lparr>lvl = DebugLevel, attrs = [], line = [Lit ''Received PONG request'']\<rparr>,
         \<lparr>lvl = WarnLevel, attrs = [],
          line = [Lit ''unknow message type received: '',
                  MsgString (Message_zero\<lparr>Type := ''PONG''\<rparr>)]\<rparr>]\<rparr>)"
proof -
  have h: "Type (Message_zero\<lparr>Type := ''PONG''\<rparr>) = PONG" by (simp add: PONG_def)
  show ?thesis using h listenRead_pong_is_unknown [OF h, of service0 proc0]
    by (simp add: proc0_def)
qed

section \<open>Replies of the write loop\<close>

text \<open>
  C6, as amended. When the write of the \<open>PONG\<close> reply fails, the write loop logs the error
  with the fields \<open>body\<close> and \<open>type\<close> of the \<open>PONG\<close> message (there is no author
  field) and goes on with the events that follow: it does not return.
\<close>

theorem listenWrite_pong_failure:
  "next_write_result (ws c) = Some err \<Longrightarrow>
   listenWrite (PingEvent received # es) c p =
     listenWrite es
       (c\<lparr>ws := (ws c)\<lparr>write_results := tl (write_results (ws c)),
                      written := written (ws c) @ [JSONFrame (Message_zero\<lparr>Type := PONG\<rparr>)]\<rparr>\<rparr>)
       (p\<lparr>logs := logs p @
            [\<lparr>lvl = ErrorLevel, attrs = [(''body'', []), (''type'', ''PONG'')],
              line = [ErrString err]\<rparr>]\<rparr>)"
proof -
  let ?m = "Message_zero\<lparr>Type := PONG\<rparr>"
  assume a: "next_write_result (ws c) = Some err"
  obtain r c1 where s: "send ?m c = (r, c1)" by (cases "send ?m c")
  have r: "r = Some err" using send_fst [of ?m c] s a by simp
  have c1: "c1 = c\<lparr>ws := (ws c)\<lparr>write_results := tl (write_results (ws c)),
                      written := written (ws c) @ [JSONFrame ?m]\<rparr>\<rparr>"
    using send_snd [of ?m c] s by simp
  have l: "send_failed ?m err p = p\<lparr>logs := logs p @
            [\<lparr>lvl = ErrorLevel, attrs = [(''body'', []), (''type'', ''PONG'')],
              line = [ErrString err]\<rparr>]\<rparr>"
    by (simp add: send_failed_def log_entry_def Message_zero_def PONG_def)
  show ?thesis by (simp add: s r Let_def) (simp add: c1 l)
qed

theorem listenWrite_pong_failure_witness:
  "next_write_result (ws (service0\<lparr>ws := failing_conn\<rparr>)) = Some (LibError ''write: broken pipe'') \<and>
   listenWrite [PingEvent ping_full] (service0\<lparr>ws := failing_conn\<rparr>) proc0 =
   (service0\<lparr>ws := \<lparr>write_results = [],
                     written = [JSONFrame (Message_zero\<lparr>Type := ''PONG''\<rparr>)]\<rparr>\<rparr>,
    proc0\<lparr>logs := [\<lparr>lvl = ErrorLevel, attrs = [(''body'', []), (''type'', ''PONG'')],
                     line = [ErrString (LibError ''write: broken pipe'')]\<rparr>]\<rparr>)"
proof -
  have h: "next_write_result (ws (service0\<lparr>ws := failing_conn\<rparr>)) =
      Some (LibError ''write: broken pipe'')"
    by (simp add: next_write_result_def failing_conn_def)
  note e = listenWrite_pong_failure [OF h, of ping_full "[]" proc0]
  show ?thesis
    apply (rule conjI)
     apply (rule h)
    apply (subst e)
    apply (simp add: failing_conn_def service0_def conn0_def proc0_def PONG_def)
    done
qed

text \<open>
  The claim as stated (logged with author, body and type) fails: the one log entry of a
  failed \<open>PONG\<close> write has the fields \<open>body\<close> and \<open>type\<close> and no field \<open>author\<close>.
\<close>

theorem listenWrite_pong_failure_no_author_counterexample:
  "logs (snd (listenWrite [PingEvent ping_full] (service0\<lparr>ws := failing_conn\<rparr>) proc0)) =
     [\<lparr>lvl = ErrorLevel, attrs = [(''body'', []), (''type'', ''PONG'')],
       line = [ErrString (LibError ''write: broken pipe'')]\<rparr>] \<and>
   ''author'' \<notin> set (map fst (concat (map attrs
      (logs (snd (listenWrite [PingEvent ping_full] (service0\<lparr>ws := failing_conn\<rparr>) proc0))))))"
  by (simp add: failing_conn_def service0_def conn0_def proc0_def send_def ws_write_def PONG_def
      send_failed_def log_entry_def Message_zero_def)











section \<open>Server status and uptime\<close>


lemma getServerStatus_success_caches:
  "getServerStatus http p = (Inr ss, p1) \<Longrightarrow> serverStatus p1 = Some ss"
  by (auto simp: getServerStatus_def Let_def split: option.splits http_result.splits)



lemma getServerStatus_split:
  "getServerStatus http p =
     (case getServerStatus_begin p of
        (Some ss, p1) \<Rightarrow> (Inr ss, p1)
      | (None, p1) \<Rightarrow> getServerStatus_end (http (length (requests p))) p1)"
  by (simp add: getServerStatus_def getServerStatus_begin_def getServerStatus_end_def Let_def
      split: option.splits http_result.splits)




section \<open>Command file\<close>

text \<open>
  C10. When the file cannot be read, \<open>ReadCommandsFromFile\<close> returns the read error to its
  caller. When the file is read and its contents fail to parse, the call does not return:
  the process exits with status 1 after logging the parse error. So an error that the
  function returns is always the read error, never a parse error.
\<close>

theorem ReadCommandsFromFile_read_and_parse_errors:
  "(ReadFile file = Inl err \<longrightarrow>
      ReadCommandsFromFile ReadFile Unmarshal file = Return (Inl err)) \<and>
   (ReadFile file2 = Inr data \<and> Unmarshal data = Inl perr \<longrightarrow>
      ReadCommandsFromFile ReadFile Unmarshal file2 = Exit 1 (''error: '' @ Error_text perr)) \<and>
   (ReadCommandsFromFile ReadFile Unmarshal file3 = Return (Inl err3) \<longrightarrow>
      ReadFile file3 = Inl err3)"
  by (auto simp: ReadCommandsFromFile_def split: sum.splits)

theorem ReadCommandsFromFile_read_and_parse_errors_witness:
  "ReadFile0 ''missing.yml'' = Inl (LibError ''open: no such file or directory'') \<and>
   ReadCommandsFromFile ReadFile0 Unmarshal0 ''missing.yml'' =
     Return (Inl (LibError ''open: no such file or directory'')) \<and>
   ReadFile0 ''commands.yml'' = Inr ''commands: ['' \<and>
   Unmarshal0 ''commands: ['' = Inl (LibError ''yaml: did not find expected node content'') \<and>
   ReadCommandsFromFile ReadFile0 Unmarshal0 ''commands.yml'' =
     Exit 1 ''error: yaml: did not find expected node content''"
proof -
  have a: "ReadFile0 ''missing.yml'' = Inl (LibError ''open: no such file or directory'')"
    by (simp add: ReadFile0_def)
  have b: "ReadFile0 ''commands.yml'' = Inr ''commands: [''"
    by (simp add: ReadFile0_def)
  have c: "Unmarshal0 ''commands: ['' = Inl (LibError ''yaml: did not find expected node content'')"
    by (simp add: Unmarshal0_def)
  show ?thesis
    using a b c
      ReadCommandsFromFile_read_and_parse_errors [of ReadFile0 "''missing.yml''"
        "LibError ''open: no such file or directory''" Unmarshal0 "''commands.yml''"
        "''commands: [''" "LibError ''yaml: did not find expected node content''"
        "''missing.yml''" "LibError ''open: no such file or directory''"]
    by simp
qed

end
